theory Spec2Isabelle
  imports Complex_Main "HOL-Library.Sublist"
begin

section \<open>JavaScript strings and regular expressions\<close>

text \<open>
  A JavaScript string is modelled as a \<open>string\<close>: the list of its code units, restricted to
  the code units below 256. The literal characters and the ranges of the repository's
  patterns are ASCII, and case folding in a pattern without the \<open>u\<close> flag never maps a
  non-ASCII code unit to an ASCII one, so a code unit left out is matched by no literal
  and no range of these patterns. The white space class and \<open>trim\<close> are different: they
  also take the white space characters above 255 (U+1680, U+2000 to U+200A, U+2028,
  U+2029, U+202F, U+205F, U+3000 and U+FEFF), which this model does not have.
\<close>

definition in_range :: "char \<Rightarrow> char \<Rightarrow> char \<Rightarrow> bool" where
  "in_range lo hi c = ((of_char lo :: nat) \<le> of_char c \<and> (of_char c :: nat) \<le> of_char hi)"

definition to_upper :: "char \<Rightarrow> char" where
  "to_upper c =
     (case map_of (zip ''abcdefghijklmnopqrstuvwxyz'' ''ABCDEFGHIJKLMNOPQRSTUVWXYZ'') c of
        Some u \<Rightarrow> u | None \<Rightarrow> c)"

definition to_lower :: "char \<Rightarrow> char" where
  "to_lower c =
     (case map_of (zip ''ABCDEFGHIJKLMNOPQRSTUVWXYZ'' ''abcdefghijklmnopqrstuvwxyz'') c of
        Some l \<Rightarrow> l | None \<Rightarrow> c)"

text \<open>\<open>Canonicalize\<close> of the language definition: with the \<open>i\<close> flag a character is
  compared through its upper case.\<close>

definition canonicalize :: "bool \<Rightarrow> char \<Rightarrow> char" where
  "canonicalize ic c = (if ic then to_upper c else c)"

text \<open>
  The pattern language, as far as the repository's regular expression literals use it:
  a literal character, a character class (a list of ranges, possibly negated with \<open>^\<close>),
  concatenation, the greedy \<open>*\<close> and \<open>+\<close>, the exact repetition \<open>{n}\<close>, the negative lookahead
  \<open>(?!...)\<close>, the word boundary assertion and the anchors \<open>^\<close> and \<open>$\<close> (no \<open>m\<close>
  flag: they match at the two ends of the input only).
\<close>

datatype re =
    Eps
  | Chr char
  | Cls "(char \<times> char) list" bool
  | Seq re re
  | Star re
  | Plus re
  | Rep nat re
  | NotAhead re
  | WordB
  | Bol
  | Eol

text \<open>A class contains a character when one of its members canonicalises to the same
  character; only the letters have another member to try.\<close>

definition in_class :: "bool \<Rightarrow> (char \<times> char) list \<Rightarrow> bool \<Rightarrow> char \<Rightarrow> bool" where
  "in_class ic rs neg c =
     ((\<exists>(lo, hi) \<in> set rs.
          in_range lo hi c \<or> (ic \<and> (in_range lo hi (to_upper c) \<or> in_range lo hi (to_lower c))))
      \<noteq> neg)"

definition word_ranges :: "(char \<times> char) list" where
  "word_ranges = [(CHR ''a'', CHR ''z''), (CHR ''A'', CHR ''Z''), (CHR ''0'', CHR ''9''), (CHR ''_'', CHR ''_'')]"

definition space_ranges :: "(char \<times> char) list" where
  "space_ranges = [(CHR 0x09, CHR 0x0D), (CHR '' '', CHR '' ''), (CHR 0xA0, CHR 0xA0)]"

definition is_word :: "char \<Rightarrow> bool" where
  "is_word c = in_class False word_ranges False c"

definition is_space :: "char \<Rightarrow> bool" where
  "is_space c = in_class False space_ranges False c"

text \<open>
  A position in the input is the pair of the characters already passed, last one first,
  and the characters still ahead. The matcher returns the positions at which a match of
  the pattern started at the given position can end, in the order in which the
  backtracking matcher of the language tries them; the first one is the match that
  \<open>exec\<close> reports. An iteration of \<open>*\<close> that consumes nothing is rejected, as the
  language definition says.
\<close>

type_synonym pos = "string \<times> string"

fun re_size :: "re \<Rightarrow> nat" where
  "re_size (Seq r1 r2) = Suc (re_size r1 + re_size r2)"
| "re_size (Star r) = Suc (re_size r)"
| "re_size (Plus r) = Suc (Suc (re_size r))"
| "re_size (Rep n r) = Suc (n + re_size r)"
| "re_size (NotAhead r) = Suc (re_size r)"
| "re_size _ = 0"

function m :: "bool \<Rightarrow> re \<Rightarrow> pos \<Rightarrow> pos list" where
  "m ic Eps p = [p]"
| "m ic (Chr c) (b, []) = []"
| "m ic (Chr c) (b, x # xs) =
     (if canonicalize ic x = canonicalize ic c then [(x # b, xs)] else [])"
| "m ic (Cls rs neg) (b, []) = []"
| "m ic (Cls rs neg) (b, x # xs) = (if in_class ic rs neg x then [(x # b, xs)] else [])"
| "m ic (Seq r1 r2) p = concat (map (m ic r2) (m ic r1 p))"
| "m ic (Star r) p =
     concat (map (\<lambda>q. if length (snd q) < length (snd p) then m ic (Star r) q else [])
                 (m ic r p)) @ [p]"
| "m ic (Plus r) p = concat (map (m ic (Star r)) (m ic r p))"
| "m ic (Rep 0 r) p = [p]"
| "m ic (Rep (Suc n) r) p = concat (map (m ic (Rep n r)) (m ic r p))"
| "m ic (NotAhead r) p = (if m ic r p = [] then [p] else [])"
| "m ic WordB (b, a) =
     (if (case b of [] \<Rightarrow> False | x # _ \<Rightarrow> is_word x) \<noteq> (case a of [] \<Rightarrow> False | x # _ \<Rightarrow> is_word x)
      then [(b, a)] else [])"
| "m ic Bol (b, a) = (if b = [] then [(b, a)] else [])"
| "m ic Eol (b, a) = (if a = [] then [(b, a)] else [])"
  by pat_completeness auto
termination
  by (relation "inv_image (measure re_size <*lex*> measure length) (\<lambda>(ic, r, p). (r, snd p))") auto

declare m.simps(7) [simp del]

text \<open>A regular expression object: the text of the literal between the slashes, the
  pattern that this text denotes, and the flags \<open>i\<close> and \<open>g\<close>.\<close>

record regexp =
  source :: string
  pat :: re
  flag_i :: bool
  flag_g :: bool

definition seqs :: "re list \<Rightarrow> re" where
  "seqs rs = foldr Seq rs Eps"

definition lit :: "string \<Rightarrow> re" where
  "lit s = seqs (map Chr s)"

text \<open>\<open>RegExp.prototype.test\<close> on an expression whose \<open>lastIndex\<close> is 0: the start
  positions are tried from the left.\<close>

fun test_from :: "bool \<Rightarrow> re \<Rightarrow> string \<Rightarrow> string \<Rightarrow> bool" where
  "test_from ic r b [] = (m ic r (b, []) \<noteq> [])"
| "test_from ic r b (c # cs) = (m ic r (b, c # cs) \<noteq> [] \<or> test_from ic r (c # b) cs)"

definition test :: "regexp \<Rightarrow> string \<Rightarrow> bool" where
  "test rx s = test_from (flag_i rx) (pat rx) [] s"

text \<open>
  \<open>String.prototype.replace\<close> with a regular expression and a replacement string that
  has no \<open>$\<close> pattern (the repository only passes the empty string). With the \<open>g\<close> flag
  every match is replaced, the search going on where the last match ended; after an empty
  match it goes on one character further.
\<close>

function replace_all :: "bool \<Rightarrow> re \<Rightarrow> string \<Rightarrow> string \<Rightarrow> string \<Rightarrow> string" where
  "replace_all ic r rep b a =
     (case m ic r (b, a) of
        [] \<Rightarrow> (case a of [] \<Rightarrow> [] | c # cs \<Rightarrow> c # replace_all ic r rep (c # b) cs)
      | q # _ \<Rightarrow>
          if length (snd q) < length a then rep @ replace_all ic r rep (fst q) (snd q)
          else rep @ (case a of [] \<Rightarrow> [] | c # cs \<Rightarrow> c # replace_all ic r rep (c # b) cs))"
  by pat_completeness auto
termination
  by (relation "measure (\<lambda>(ic, r, rep, b, a). length a)") auto

declare replace_all.simps [simp del]

fun replace_first :: "bool \<Rightarrow> re \<Rightarrow> string \<Rightarrow> string \<Rightarrow> string \<Rightarrow> string" where
  "replace_first ic r rep b [] = (case m ic r (b, []) of [] \<Rightarrow> [] | q # _ \<Rightarrow> rep)"
| "replace_first ic r rep b (c # cs) =
     (case m ic r (b, c # cs) of
        [] \<Rightarrow> c # replace_first ic r rep (c # b) cs
      | q # _ \<Rightarrow> rep @ snd q)"

definition replace :: "string \<Rightarrow> regexp \<Rightarrow> string \<Rightarrow> string" where
  "replace s rx rep =
     (if flag_g rx then replace_all (flag_i rx) (pat rx) rep [] s
      else replace_first (flag_i rx) (pat rx) rep [] s)"

text \<open>\<open>String.prototype.trim\<close> removes white space and line terminators at both ends.\<close>

definition trim :: "string \<Rightarrow> string" where
  "trim s = rev (dropWhile is_space (rev (dropWhile is_space s)))"

section \<open>The pattern registry\<close>

definition digit :: re where
  "digit = Cls [(CHR ''0'', CHR ''9'')] False"

definition upper :: re where
  "upper = Cls [(CHR ''A'', CHR ''Z'')] False"

definition panRegex :: regexp where
  "panRegex =
     \<lparr>source = ''^[A-Z]{5}[0-9]{4}[A-Z]{1}$'',
      pat = seqs [Bol, Rep 5 upper, Rep 4 digit, Rep 1 upper, Eol],
      flag_i = False, flag_g = False\<rparr>"

definition aadhaarRegex :: regexp where
  "aadhaarRegex =
     \<lparr>source = ''^[2-9][0-9]{11}$'',
      pat = seqs [Bol, Cls [(CHR ''2'', CHR ''9'')] False, Rep 11 digit, Eol],
      flag_i = False, flag_g = False\<rparr>"

definition mobileRegex :: regexp where
  "mobileRegex =
     \<lparr>source = ''^[6-9][0-9]{9}$'',
      pat = seqs [Bol, Cls [(CHR ''6'', CHR ''9'')] False, Rep 9 digit, Eol],
      flag_i = False, flag_g = False\<rparr>"

definition otpRegex :: regexp where
  "otpRegex =
     \<lparr>source = ''^[0-9]{6}$'',
      pat = seqs [Bol, Rep 6 digit, Eol],
      flag_i = False, flag_g = False\<rparr>"

definition pincodeRegex :: regexp where
  "pincodeRegex =
     \<lparr>source = ''^[0-9]{6}$'',
      pat = seqs [Bol, Rep 6 digit, Eol],
      flag_i = False, flag_g = False\<rparr>"

section \<open>JavaScript values\<close>

text \<open>
  The values a request body is made of, and \<open>undefined\<close>, which reading a property that
  an object does not have returns. An object is the list of its own properties in their
  order; its keys are distinct, and \<open>lookup\<close> reads the first one of a name.
\<close>

datatype jsval =
    JUndefined
  | JNull
  | JBool bool
  | JNum rat
  | JStr string
  | JArr "jsval list"
  | JObj "(string \<times> jsval) list"

definition lookup :: "(string \<times> jsval) list \<Rightarrow> string \<Rightarrow> jsval" where
  "lookup kvs k = (case map_of kvs k of None \<Rightarrow> JUndefined | Some v \<Rightarrow> v)"

text \<open>
  An operation that can throw, or a promise that can reject, has an \<open>outcome\<close>:
  \<open>Throws\<close> carries the \<open>message\<close> of what was thrown, if it has one.
  \<open>message_or e d\<close> is the expression \<open>e?.message || d\<close>.
\<close>

datatype 'a outcome = Throws "string option" | Returns 'a

definition message_or :: "string option \<Rightarrow> string \<Rightarrow> string" where
  "message_or e d = (case e of None \<Rightarrow> d | Some msg \<Rightarrow> if msg = [] then d else msg)"

section \<open>The validation library\<close>

text \<open>
  The schemas are built with the zod library (version 3: the code reads \<open>error.errors\<close>).
  The library is a dependency, not part of the repository; this section models what it
  does for the schemas the repository builds: \<open>z.string()\<close> with \<open>regex\<close>, \<open>min\<close> and
  \<open>max\<close> checks, \<open>z.boolean().refine(...)\<close>, and \<open>z.object\<close> of these, which strips
  unknown keys. An issue carries more fields than the three kept here.
\<close>

datatype issue_code = invalid_type | invalid_string | too_small | too_big | custom

record issue =
  code :: issue_code
  path :: "string list"
  message :: string

datatype check = CRegex regexp string | CMin nat string | CMax nat string

datatype zfield = ZString "check list" | ZBooleanRefine "bool \<Rightarrow> bool" string

datatype parse_status = SValid | SDirty | SAborted

fun parsed_type :: "jsval \<Rightarrow> string" where
  "parsed_type JUndefined = ''undefined''"
| "parsed_type JNull = ''null''"
| "parsed_type (JBool _) = ''boolean''"
| "parsed_type (JNum _) = ''number''"
| "parsed_type (JStr _) = ''string''"
| "parsed_type (JArr _) = ''array''"
| "parsed_type (JObj _) = ''object''"

definition invalid_type_issue :: "string \<Rightarrow> string list \<Rightarrow> jsval \<Rightarrow> issue" where
  "invalid_type_issue expected p v =
     \<lparr>code = invalid_type, path = p,
      message = (if v = JUndefined then ''Required''
                 else ''Expected '' @ expected @ '', received '' @ parsed_type v)\<rparr>"

fun run_check :: "string list \<Rightarrow> string \<Rightarrow> check \<Rightarrow> issue list" where
  "run_check p s (CRegex rx msg) =
     (if \<not> test rx s then [\<lparr>code = invalid_string, path = p, message = msg\<rparr>] else [])"
| "run_check p s (CMin n msg) =
     (if length s < n then [\<lparr>code = too_small, path = p, message = msg\<rparr>] else [])"
| "run_check p s (CMax n msg) =
     (if length s > n then [\<lparr>code = too_big, path = p, message = msg\<rparr>] else [])"

text \<open>Parsing one value: the status and the issues added. A value of the wrong type
  aborts, and then neither checks nor refinement run; all checks of a string run.\<close>

fun parse_field :: "zfield \<Rightarrow> string list \<Rightarrow> jsval \<Rightarrow> parse_status \<times> issue list" where
  "parse_field (ZString cs) p (JStr s) =
     (let is = concat (map (run_check p s) cs) in (if is = [] then SValid else SDirty, is))"
| "parse_field (ZString cs) p v = (SAborted, [invalid_type_issue ''string'' p v])"
| "parse_field (ZBooleanRefine f msg) p (JBool b) =
     (if f b then (SValid, []) else (SDirty, [\<lparr>code = custom, path = p, message = msg\<rparr>]))"
| "parse_field (ZBooleanRefine f msg) p v = (SAborted, [invalid_type_issue ''boolean'' p v])"

text \<open>What a schema declares for a field: the messages of its checks or of its refinement,
  and the type it expects, as the message of a value of another type names it.\<close>

fun check_message :: "check \<Rightarrow> string" where
  "check_message (CRegex rx msg) = msg"
| "check_message (CMin n msg) = msg"
| "check_message (CMax n msg) = msg"

fun field_messages :: "zfield \<Rightarrow> string list" where
  "field_messages (ZString cs) = map check_message cs"
| "field_messages (ZBooleanRefine f msg) = [msg]"

fun expected_type :: "zfield \<Rightarrow> string" where
  "expected_type (ZString cs) = ''string''"
| "expected_type (ZBooleanRefine f msg) = ''boolean''"

datatype parse_result = Success "(string \<times> jsval) list" | Failure "issue list"

text \<open>
  Parsing an object: every key of the shape is parsed, in the order of the shape, before
  the results are merged, so the issues of all keys are collected. The parsed object has
  the keys of the shape only.
\<close>

definition safeParse :: "(string \<times> zfield) list \<Rightarrow> jsval \<Rightarrow> parse_result" where
  "safeParse shape v =
     (case v of
        JObj kvs \<Rightarrow>
          (let rs = map (\<lambda>(k, f). parse_field f [k] (lookup kvs k)) shape
           in if list_all (\<lambda>r. fst r = SValid) rs
              then Success (map (\<lambda>(k, f). (k, lookup kvs k))
                     (filter (\<lambda>(k, f). k \<noteq> ''__proto__'' \<and>
                                (lookup kvs k \<noteq> JUndefined \<or> k \<in> set (map fst kvs))) shape))
              else Failure (concat (map snd rs)))
      | _ \<Rightarrow> Failure [invalid_type_issue ''object'' [] v])"

section \<open>The validation service\<close>

definition aadhaarSchema :: "(string \<times> zfield) list" where
  "aadhaarSchema =
     [(''aadhaarNumber'',
       ZString [CRegex aadhaarRegex ''Invalid Aadhaar format. Must be 12 digits starting with 2-9''])]"

definition panSchema :: "(string \<times> zfield) list" where
  "panSchema =
     [(''panNumber'', ZString [CRegex panRegex ''Invalid PAN format. Expected: ABCDE1234F''])]"

definition otpSchema :: "(string \<times> zfield) list" where
  "otpSchema = [(''otp'', ZString [CRegex otpRegex ''Invalid OTP format. Must be 6 digits''])]"

definition pincodeSchema :: "(string \<times> zfield) list" where
  "pincodeSchema =
     [(''pincode'', ZString [CRegex pincodeRegex ''Invalid PIN code format. Must be 6 digits''])]"

definition submissionSchema :: "(string \<times> zfield) list" where
  "submissionSchema =
     [(''aadhaarNumber'', ZString [CRegex aadhaarRegex ''Invalid Aadhaar format'']),
      (''entrepreneurName'',
         ZString [CMin 1 ''Entrepreneur name is required'', CMax 100 ''Name too long'']),
      (''consent'', ZBooleanRefine (\<lambda>val. val = True) ''Consent is required''),
      (''otp'', ZString [CRegex otpRegex ''Invalid OTP format'']),
      (''otpVerified'', ZBooleanRefine (\<lambda>val. val = True) ''OTP must be verified''),
      (''organisationType'', ZString [CMin 1 ''Organisation type is required'']),
      (''panNumber'', ZString [CRegex panRegex ''Invalid PAN format'']),
      (''panHolderName'',
         ZString [CMin 1 ''PAN holder name is required'', CMax 100 ''Name too long'']),
      (''dob'', ZString [CMin 1 ''Date of birth is required'']),
      (''panConsent'', ZBooleanRefine (\<lambda>val. val = True) ''PAN consent is required''),
      (''pincode'', ZString [CRegex pincodeRegex ''Invalid PIN code format'']),
      (''state'', ZString [CMin 1 ''State is required'']),
      (''city'', ZString [CMin 1 ''City is required''])]"

text \<open>
  What the methods of the service return: \<open>{valid: true, data}\<close>,
  \<open>{valid: false, error}\<close> or \<open>{valid: false, error, details}\<close>. \<open>TypeError\<close> stands
  for the exception that reading \<open>error.errors[0].message\<close> raises when there is no
  first issue.
\<close>

datatype validation_result =
    Valid "(string \<times> jsval) list"
  | Invalid string
  | InvalidDetails string "issue list"
  | TypeError

fun valid :: "validation_result \<Rightarrow> bool" where
  "valid (Valid d) = True"
| "valid _ = False"

definition first_message :: "parse_result \<Rightarrow> validation_result" where
  "first_message r =
     (case r of
        Success d \<Rightarrow> Valid d
      | Failure [] \<Rightarrow> TypeError
      | Failure (i # _) \<Rightarrow> Invalid (message i))"

definition validateAadhaar :: "jsval \<Rightarrow> validation_result" where
  "validateAadhaar aadhaarNumber =
     first_message (safeParse aadhaarSchema (JObj [(''aadhaarNumber'', aadhaarNumber)]))"

definition validatePAN :: "jsval \<Rightarrow> validation_result" where
  "validatePAN panNumber = first_message (safeParse panSchema (JObj [(''panNumber'', panNumber)]))"

definition validateOTP :: "jsval \<Rightarrow> validation_result" where
  "validateOTP otp = first_message (safeParse otpSchema (JObj [(''otp'', otp)]))"

definition validatePincode :: "jsval \<Rightarrow> validation_result" where
  "validatePincode pincode =
     first_message (safeParse pincodeSchema (JObj [(''pincode'', pincode)]))"

definition validateSubmission :: "jsval \<Rightarrow> validation_result" where
  "validateSubmission data =
     (case safeParse submissionSchema data of
        Success d \<Rightarrow> Valid d
      | Failure is \<Rightarrow> InvalidDetails ''Validation failed'' is)"

text \<open>The three patterns of \<open>sanitizeInput\<close>, applied in this order to every string.\<close>

definition script_element :: regexp where
  "script_element =
     \<lparr>source = ''<script'' @ [CHR 0x5C] @ ''b[^<]*(?:(?!<'' @ [CHR 0x5C] @ ''/script>)<[^<]*)*<''
                @ [CHR 0x5C] @ ''/script>'',
      pat = seqs [lit ''<script'', WordB, Star (Cls [(CHR ''<'', CHR ''<'')] True),
                  Star (seqs [NotAhead (lit ''</script>''), Chr CHR ''<'',
                              Star (Cls [(CHR ''<'', CHR ''<'')] True)]),
                  lit ''</script>''],
      flag_i = True, flag_g = True\<rparr>"

definition javascript_scheme :: regexp where
  "javascript_scheme = \<lparr>source = ''javascript:'', pat = lit ''javascript:'', flag_i = True, flag_g = True\<rparr>"

definition event_handler :: regexp where
  "event_handler =
     \<lparr>source = ''on'' @ [CHR 0x5C] @ ''w+'' @ [CHR 0x5C] @ ''s*='',
      pat = seqs [lit ''on'', Plus (Cls word_ranges False), Star (Cls space_ranges False),
                  Chr CHR ''=''],
      flag_i = True, flag_g = True\<rparr>"

definition sanitize_string :: "string \<Rightarrow> string" where
  "sanitize_string v =
     trim (replace (replace (replace v script_element '''') javascript_scheme '''')
             event_handler '''')"

fun sanitize_value :: "jsval \<Rightarrow> jsval" where
  "sanitize_value (JStr v) = JStr (sanitize_string v)"
| "sanitize_value v = v"

text \<open>
  \<open>sanitizeInput\<close> starts from the empty object literal and assigns
  \<open>sanitized[key] = value\<close> for every entry of its argument. The object it returns has
  its own properties and a prototype: that of every object literal at first. An assignment
  to a key that is not an own property goes up the prototype chain. There it finds
  writable data properties, for which the property is created on the object itself, and
  the one accessor \<open>__proto__\<close> of the prototype of all objects, whose setter makes an
  object or \<open>null\<close> the new prototype and ignores every other value. An object that
  \<open>JSON.parse\<close> built can have \<open>__proto__\<close> as an own property.
\<close>

datatype prototype = ObjectPrototype | NullPrototype | ValuePrototype jsval

record js_object =
  own :: "(string \<times> jsval) list"
  proto :: prototype

fun proto_setter_inherited :: "prototype \<Rightarrow> bool" where
  "proto_setter_inherited ObjectPrototype = True"
| "proto_setter_inherited NullPrototype = False"
| "proto_setter_inherited (ValuePrototype (JObj kvs)) = (''__proto__'' \<notin> set (map fst kvs))"
| "proto_setter_inherited (ValuePrototype v) = True"

fun set_prototype_of :: "js_object \<Rightarrow> jsval \<Rightarrow> js_object" where
  "set_prototype_of obj (JObj kvs) = obj\<lparr>proto := ValuePrototype (JObj kvs)\<rparr>"
| "set_prototype_of obj (JArr vs) = obj\<lparr>proto := ValuePrototype (JArr vs)\<rparr>"
| "set_prototype_of obj JNull = obj\<lparr>proto := NullPrototype\<rparr>"
| "set_prototype_of obj v = obj"

definition assign :: "js_object \<Rightarrow> string \<Rightarrow> jsval \<Rightarrow> js_object" where
  "assign obj key v =
     (if key \<in> set (map fst (own obj))
      then obj\<lparr>own := map (\<lambda>(k, v'). (k, if k = key then v else v')) (own obj)\<rparr>
      else if key = ''__proto__'' \<and> proto_setter_inherited (proto obj)
      then set_prototype_of obj v
      else obj\<lparr>own := own obj @ [(key, v)]\<rparr>)"

definition sanitizeInput :: "(string \<times> jsval) list \<Rightarrow> js_object" where
  "sanitizeInput data =
     foldl (\<lambda>sanitized (key, v). assign sanitized key (sanitize_value v))
       \<lparr>own = [], proto = ObjectPrototype\<rparr> data"

section \<open>The submission endpoint\<close>

text \<open>The handler of \<open>POST /submit\<close> builds its own schema, without the length limit on
  the two names.\<close>

definition submissionSchema_server :: "(string \<times> zfield) list" where
  "submissionSchema_server =
     [(''aadhaarNumber'', ZString [CRegex aadhaarRegex ''Invalid Aadhaar format'']),
      (''entrepreneurName'', ZString [CMin 1 ''Entrepreneur name is required'']),
      (''consent'', ZBooleanRefine (\<lambda>val. val = True) ''Consent is required''),
      (''otp'', ZString [CRegex otpRegex ''Invalid OTP format'']),
      (''otpVerified'', ZBooleanRefine (\<lambda>val. val = True) ''OTP must be verified''),
      (''organisationType'', ZString [CMin 1 ''Organisation type is required'']),
      (''panNumber'', ZString [CRegex panRegex ''Invalid PAN format'']),
      (''panHolderName'', ZString [CMin 1 ''PAN holder name is required'']),
      (''dob'', ZString [CMin 1 ''Date of birth is required'']),
      (''panConsent'', ZBooleanRefine (\<lambda>val. val = True) ''PAN consent is required''),
      (''pincode'', ZString [CRegex pincodeRegex ''Invalid PIN code format'']),
      (''state'', ZString [CMin 1 ''State is required'']),
      (''city'', ZString [CMin 1 ''City is required''])]"

text \<open>
  The persistence sink. \<open>getPrisma\<close> returns \<open>null\<close> when the database client cannot be
  loaded, and a client otherwise; \<open>create\<close> on the client returns the saved row, of which
  the handler reads the \<open>id\<close> only, or throws.
\<close>

datatype prisma = NoClient | Client "(string \<times> jsval) list \<Rightarrow> string outcome"

datatype body =
    ErrorDetails string "issue list"
  | Unstored string "(string \<times> jsval) list"
  | StoredId string string
  | ErrorMessage string string

record response =
  status :: nat
  body :: body

text \<open>The row given to \<open>create\<close>: the thirteen properties read from the parsed data, and
  the status.\<close>

definition create_data :: "(string \<times> jsval) list \<Rightarrow> (string \<times> jsval) list" where
  "create_data d =
     [(''aadhaarNumber'', lookup d ''aadhaarNumber''),
      (''entrepreneurName'', lookup d ''entrepreneurName''),
      (''consent'', lookup d ''consent''),
      (''otp'', lookup d ''otp''),
      (''otpVerified'', lookup d ''otpVerified''),
      (''organisationType'', lookup d ''organisationType''),
      (''panNumber'', lookup d ''panNumber''),
      (''panHolderName'', lookup d ''panHolderName''),
      (''dob'', lookup d ''dob''),
      (''panConsent'', lookup d ''panConsent''),
      (''pincode'', lookup d ''pincode''),
      (''state'', lookup d ''state''),
      (''city'', lookup d ''city''),
      (''status'', JStr ''pending'')]"

definition submit :: "jsval \<Rightarrow> prisma \<Rightarrow> response" where
  "submit req_body client =
     (case safeParse submissionSchema_server req_body of
        Failure errors \<Rightarrow> \<lparr>status = 400, body = ErrorDetails ''Validation failed'' errors\<rparr>
      | Success d \<Rightarrow>
          (case client of
             NoClient \<Rightarrow>
               \<lparr>status = 202,
                body = Unstored ''Database not configured. Data accepted for validation only.'' d\<rparr>
           | Client create \<Rightarrow>
               (case create (create_data d) of
                  Returns saved_id \<Rightarrow>
                    \<lparr>status = 200,
                     body = StoredId saved_id ''Udyam registration submitted successfully''\<rparr>
                | Throws e \<Rightarrow>
                    \<lparr>status = 500,
                     body = ErrorMessage ''Internal server error''
                       (message_or e ''Failed to store submission'')\<rparr>)))"

section \<open>The shared form schemas\<close>

datatype FieldType = Text | Number | Select | Radio | Checkbox | Date | Tel | Email | Password | Otp

record FieldValidation =
  required :: "bool option"
  minLength :: "nat option"
  maxLength :: "nat option"
  pattern :: "string option"
  helpText :: "string option"

record FormField =
  id' :: string
  name :: string
  label :: string
  placeholder :: "string option"
  type :: FieldType
  options :: "(string \<times> string) list option"
  validation :: "FieldValidation option"

record FormSchema =
  title :: string
  step :: nat
  fields' :: "FormField list"

definition step1Schema :: FormSchema where
  "step1Schema =
     \<lparr>title = ''Udyam Registration - Step 1 (Aadhaar & OTP)'',
      step = 1,
      fields' =
        [\<lparr>id' = ''aadhaarNumber'', name = ''aadhaarNumber'', label = ''Aadhaar Number'',
          placeholder = Some ''Enter 12-digit Aadhaar'', type = Tel, options = None,
          validation = Some \<lparr>required = Some True, minLength = Some 12, maxLength = Some 12,
                             pattern = Some (source aadhaarRegex),
                             helpText = Some ''12 digits; must start with 2-9''\<rparr>\<rparr>,
         \<lparr>id' = ''mobileNumber'', name = ''mobileNumber'',
          label = ''Mobile Number (linked to Aadhaar)'',
          placeholder = Some ''Enter 10-digit mobile'', type = Tel, options = None,
          validation = Some \<lparr>required = Some True, minLength = Some 10, maxLength = Some 10,
                             pattern = Some (source mobileRegex), helpText = None\<rparr>\<rparr>,
         \<lparr>id' = ''otp'', name = ''otp'', label = ''OTP'',
          placeholder = Some ''Enter 6-digit OTP'', type = Otp, options = None,
          validation = Some \<lparr>required = Some True, minLength = Some 6, maxLength = Some 6,
                             pattern = Some (source otpRegex), helpText = None\<rparr>\<rparr>]\<rparr>"

definition step2Schema :: FormSchema where
  "step2Schema =
     \<lparr>title = ''Udyam Registration - Step 2 (PAN Validation)'',
      step = 2,
      fields' =
        [\<lparr>id' = ''panNumber'', name = ''panNumber'', label = ''PAN Number'',
          placeholder = Some ''ABCDE1234F'', type = Text, options = None,
          validation = Some \<lparr>required = Some True, minLength = Some 10, maxLength = Some 10,
                             pattern = Some (source panRegex),
                             helpText = Some ''Format: [A-Z]{5}[0-9]{4}[A-Z]''\<rparr>\<rparr>,
         \<lparr>id' = ''pincode'', name = ''pincode'', label = ''PIN Code'',
          placeholder = Some ''6-digit PIN'', type = Tel, options = None,
          validation = Some \<lparr>required = Some False, minLength = Some 6, maxLength = Some 6,
                             pattern = Some ''^[0-9]{6}$'', helpText = None\<rparr>\<rparr>,
         \<lparr>id' = ''state'', name = ''state'', label = ''State'',
          placeholder = None, type = Text, options = None,
          validation = Some \<lparr>required = Some False, minLength = None, maxLength = None,
                             pattern = None, helpText = None\<rparr>\<rparr>,
         \<lparr>id' = ''city'', name = ''city'', label = ''City'',
          placeholder = None, type = Text, options = None,
          validation = Some \<lparr>required = Some False, minLength = None, maxLength = None,
                             pattern = None, helpText = None\<rparr>\<rparr>]\<rparr>"

section \<open>Fetching a schema\<close>

text \<open>
  The endpoint \<open>GET /scraped-schema/:step\<close> answers from the generated file of the step:
  the file may be missing, and reading or parsing it may throw. A response is \<open>ok\<close> when
  its status is in the range 200 to 299.
\<close>

definition scraped_schema :: "jsval outcome option \<Rightarrow> nat \<times> jsval" where
  "scraped_schema file =
     (case file of
        None \<Rightarrow> (404, JObj [(''error'', JStr ''Scraped schema not found'')])
      | Some (Throws e) \<Rightarrow>
          (500, JObj [(''error'', JStr (message_or e ''Failed to read scraped schema''))])
      | Some (Returns d) \<Rightarrow> (200, d))"

record fetch_response =
  ok :: bool
  json :: "jsval outcome"

definition http_response :: "nat \<times> jsval \<Rightarrow> fetch_response" where
  "http_response r = \<lparr>ok = (200 \<le> fst r \<and> fst r \<le> 299), json = Returns (snd r)\<rparr>"

text \<open>\<open>fetchSchema\<close> returns what the endpoint sent, as it is, or one of the two static
  schemas. Whatever is thrown inside its \<open>try\<close> block is caught and dropped.\<close>

datatype schema_value = Scraped jsval | Static FormSchema

definition fetchSchema :: "nat \<Rightarrow> fetch_response outcome \<Rightarrow> schema_value outcome" where
  "fetchSchema step_no fetched =
     (case (case fetched of
              Throws e \<Rightarrow> Throws e
            | Returns r \<Rightarrow>
                if ok r
                then (case json r of Throws e \<Rightarrow> Throws e | Returns d \<Rightarrow> Returns (Some (Scraped d)))
                else Returns None) of
        Returns (Some v) \<Rightarrow> Returns v
      | _ \<Rightarrow> Returns (Static (if step_no = 1 then step1Schema else step2Schema)))"

section \<open>The extractor of step 2\<close>

text \<open>
  The document that the extractor writes is a JavaScript object, serialised as it is.
  \<open>fields\<close> is what the evaluation in the page returned: the elements that passed the
  keyword filter, changed into fields, sorted, and cut to six at most.
\<close>

definition createFallback :: jsval where
  "createFallback =
     JObj [(''title'', JStr ''Udyam Registration - Step 2 (PAN Validation)''),
           (''step'', JNum 2),
           (''fields'', JArr
              [JObj [(''id'', JStr ''panNumber''), (''name'', JStr ''panNumber''),
                     (''label'', JStr ''PAN Number''), (''placeholder'', JStr ''ABCDE1234F''),
                     (''type'', JStr ''text''),
                     (''validation'', JObj
                        [(''required'', JBool True), (''minLength'', JNum 10),
                         (''maxLength'', JNum 10),
                         (''pattern'', JStr ''^[A-Z]{5}[0-9]{4}[A-Z]{1}$''),
                         (''helpText'', JStr ''Format: [A-Z]{5}[0-9]{4}[A-Z]'')])],
               JObj [(''id'', JStr ''pincode''), (''name'', JStr ''pincode''),
                     (''label'', JStr ''PIN Code''), (''placeholder'', JStr ''6-digit PIN''),
                     (''type'', JStr ''tel''),
                     (''validation'', JObj
                        [(''minLength'', JNum 6), (''maxLength'', JNum 6),
                         (''pattern'', JStr ''^[0-9]{6}$'')])],
               JObj [(''id'', JStr ''state''), (''name'', JStr ''state''),
                     (''label'', JStr ''State''), (''type'', JStr ''text'')],
               JObj [(''id'', JStr ''city''), (''name'', JStr ''city''),
                     (''label'', JStr ''City''), (''type'', JStr ''text'')]])]"

definition written_schema :: "jsval list option \<Rightarrow> jsval" where
  "written_schema fs =
     (case fs of
        None \<Rightarrow> createFallback
      | Some fl \<Rightarrow>
          if length fl \<ge> 1
          then JObj [(''title'', JStr ''Udyam Registration (scraped)''), (''step'', JNum 2),
                     (''fields'', JArr fl)]
          else createFallback)"

text \<open>The \<open>fields\<close> array of a document, as \<open>schema.fields\<close> reads it.\<close>

definition fields_of :: "jsval \<Rightarrow> jsval list option" where
  "fields_of doc =
     (case doc of
        JObj kvs \<Rightarrow> (case lookup kvs ''fields'' of JArr fl \<Rightarrow> Some fl | _ \<Rightarrow> None)
      | _ \<Rightarrow> None)"

section \<open>Example requests\<close>

text \<open>The complete submission of the end-to-end example, and two ways to change an object:
  giving a property another value, and leaving a property out.\<close>

definition example_submission :: "(string \<times> jsval) list" where
  "example_submission =
     [(''aadhaarNumber'', JStr ''234567890123''),
      (''entrepreneurName'', JStr ''A''),
      (''consent'', JBool True),
      (''otp'', JStr ''123456''),
      (''otpVerified'', JBool True),
      (''organisationType'', JStr ''proprietary''),
      (''panNumber'', JStr ''ABCDE1234F''),
      (''panHolderName'', JStr ''A''),
      (''dob'', JStr ''1990-01-01''),
      (''panConsent'', JBool True),
      (''pincode'', JStr ''560011''),
      (''state'', JStr ''Karnataka''),
      (''city'', JStr ''Bangalore'')]"

definition set_property :: "string \<Rightarrow> jsval \<Rightarrow> (string \<times> jsval) list \<Rightarrow> (string \<times> jsval) list" where
  "set_property k v kvs = map (\<lambda>(k', v'). (k', if k' = k then v else v')) kvs"

definition delete_property :: "string \<Rightarrow> (string \<times> jsval) list \<Rightarrow> (string \<times> jsval) list" where
  "delete_property k kvs = filter (\<lambda>(k', v'). k' \<noteq> k) kvs"

definition script_submission :: "(string \<times> jsval) list" where
  "script_submission =
     set_property ''entrepreneurName'' (JStr ''<script>alert(1)</script>John'') example_submission"

section \<open>The expectations of the repository's tests\<close>

text \<open>The model computes what the test suite of the validation service expects.\<close>

lemma tests_aadhaar:
  "valid (validateAadhaar (JStr ''234567890123''))"
  "validateAadhaar (JStr ''123456789012'')
     = Invalid ''Invalid Aadhaar format. Must be 12 digits starting with 2-9''"
  "\<not> valid (validateAadhaar (JStr ''23456789012''))"
  "\<not> valid (validateAadhaar (JStr ''23456789012a''))"
  "\<not> valid (validateAadhaar (JStr ''''))"
  by code_simp+

lemma tests_pan:
  "valid (validatePAN (JStr ''ABCDE1234F''))"
  "validatePAN (JStr ''ABCD1234EF'') = Invalid ''Invalid PAN format. Expected: ABCDE1234F''"
  "\<not> valid (validatePAN (JStr ''ABCDE1234''))"
  "\<not> valid (validatePAN (JStr ''abcde1234f''))"
  by code_simp+

lemma tests_otp_pincode:
  "valid (validateOTP (JStr ''123456''))"
  "\<not> valid (validateOTP (JStr ''12345''))"
  "\<not> valid (validateOTP (JStr ''12345a''))"
  "valid (validatePincode (JStr ''560011''))"
  "\<not> valid (validatePincode (JStr ''56001''))"
  "\<not> valid (validatePincode (JStr ''56001a''))"
  by code_simp+

lemma tests_submission:
  "valid (validateSubmission
     (JObj (set_property ''panHolderName'' (JStr ''Test User'')
             (set_property ''entrepreneurName'' (JStr ''Test User'') example_submission))))"
  "\<not> valid (validateSubmission
       (JObj [(''aadhaarNumber'', JStr ''234567890123''), (''entrepreneurName'', JStr ''Test User'')]))"
  "validateSubmission
       (JObj (set_property ''aadhaarNumber'' (JStr ''123456789012'') example_submission))
     = InvalidDetails ''Validation failed''
         [\<lparr>code = invalid_string, path = [''aadhaarNumber''], message = ''Invalid Aadhaar format''\<rparr>]"
  by code_simp+

lemma tests_sanitize:
  "sanitizeInput
     [(''name'', JStr (''<script>alert('' @ [CHR 0x22] @ ''xss'' @ [CHR 0x22] @ '')</script>John Doe'')),
      (''email'', JStr ''test@example.com'')]
   = \<lparr>own = [(''name'', JStr ''John Doe''), (''email'', JStr ''test@example.com'')], proto = ObjectPrototype\<rparr>"
  "sanitizeInput
     [(''name'', JStr (''John Doe<img src='' @ [CHR 0x22] @ ''x'' @ [CHR 0x22] @ '' onerror=''
                        @ [CHR 0x22] @ ''alert(1)'' @ [CHR 0x22] @ ''>'')),
      (''description'', JStr (''javascript:alert('' @ [CHR 0x22] @ ''xss'' @ [CHR 0x22] @ '')''))]
   = \<lparr>own = [(''name'', JStr (''John Doe<img src='' @ [CHR 0x22] @ ''x'' @ [CHR 0x22] @ '' ''
                        @ [CHR 0x22] @ ''alert(1)'' @ [CHR 0x22] @ ''>'')),
      (''description'', JStr (''alert('' @ [CHR 0x22] @ ''xss'' @ [CHR 0x22] @ '')''))], proto = ObjectPrototype\<rparr>"
  "sanitizeInput
     [(''name'', JStr ''John Doe''), (''email'', JStr ''john@example.com''),
      (''phone'', JStr ''+91-98765-43210'')]
   = \<lparr>own = [(''name'', JStr ''John Doe''), (''email'', JStr ''john@example.com''),
      (''phone'', JStr ''+91-98765-43210'')], proto = ObjectPrototype\<rparr>"
  by code_simp+

section \<open>Matching the anchored patterns of the registry\<close>

lemma m_rep_cls:
  "m ic (Rep n (Cls rs neg)) (b, a) =
     (if n \<le> length a \<and> list_all (in_class ic rs neg) (take n a)
      then [(rev (take n a) @ b, drop n a)] else [])"
proof (induction n arbitrary: b a)
  case 0
  show ?case by simp
next
  case (Suc n)
  show ?case
  proof (cases a)
    case Nil
    then show ?thesis by simp
  next
    case (Cons x xs)
    then show ?thesis by (simp add: Suc)
  qed
qed

lemma test_from_bol: "b \<noteq> [] \<Longrightarrow> \<not> test_from ic (Seq Bol r) b a"
  by (induction a arbitrary: b) simp_all

lemma test_anchored: "test_from ic (Seq Bol r) [] a = (m ic r ([], a) \<noteq> [])"
  by (cases a) (simp_all add: test_from_bol)

lemma in_class_plain: "in_class False [(lo, hi)] False = in_range lo hi"
  by (rule ext) (simp add: in_class_def)

lemma test_aadhaarRegex:
  "test aadhaarRegex s \<longleftrightarrow>
     length s = 12 \<and> in_range CHR ''2'' CHR ''9'' (s ! 0)
       \<and> list_all (in_range CHR ''0'' CHR ''9'') (drop 1 s)"
proof (cases s)
  case Nil
  then show ?thesis by (simp add: test_def aadhaarRegex_def seqs_def test_anchored)
next
  case (Cons x xs)
  then show ?thesis
    by (auto simp add: test_def aadhaarRegex_def seqs_def test_anchored digit_def m_rep_cls
          in_class_plain simp del: test_from.simps)
qed

lemma test_panRegex:
  "test panRegex s \<longleftrightarrow>
     length s = 10 \<and> list_all (in_range CHR ''A'' CHR ''Z'') (take 5 s)
       \<and> list_all (in_range CHR ''0'' CHR ''9'') (take 4 (drop 5 s))
       \<and> in_range CHR ''A'' CHR ''Z'' (s ! 9)"
proof -
  have last: "drop 9 s = [s ! 9]" if "length s = 10"
    using that Cons_nth_drop_Suc [of 9 s] by simp
  show ?thesis
    by (auto simp add: test_def panRegex_def seqs_def test_anchored digit_def upper_def m_rep_cls
          in_class_plain last simp del: test_from.simps)
qed

lemma test_six_digits:
  "test_from False (seqs [Bol, Rep 6 digit, Eol]) [] s \<longleftrightarrow>
     length s = 6 \<and> list_all (in_range CHR ''0'' CHR ''9'') s"
  by (auto simp add: seqs_def test_anchored digit_def m_rep_cls in_class_plain
        simp del: test_from.simps)

lemma test_otpRegex:
  "test otpRegex s \<longleftrightarrow> length s = 6 \<and> list_all (in_range CHR ''0'' CHR ''9'') s"
  using test_six_digits [of s] by (simp add: test_def otpRegex_def)

lemma test_pincodeRegex:
  "test pincodeRegex s \<longleftrightarrow> length s = 6 \<and> list_all (in_range CHR ''0'' CHR ''9'') s"
  using test_six_digits [of s] by (simp add: test_def pincodeRegex_def)

lemma validate_string_field:
  "k \<noteq> ''__proto__'' \<Longrightarrow>
   first_message (safeParse [(k, ZString [CRegex rx msg])] (JObj [(k, JStr s)])) =
     (if test rx s then Valid [(k, JStr s)] else Invalid msg)"
  by (simp add: first_message_def safeParse_def lookup_def)


section \<open>Validation of single fields\<close>



text \<open>
  C9. For every string \<open>s\<close> that is not made of five capital letters, four digits and one
  capital letter (the empty string included), \<open>validatePAN\<close> returns the invalid result
  whose error is the message naming the expected format.
\<close>

theorem validatePAN_names_format:
  assumes "\<not> (length s = 10 \<and> list_all (in_range CHR ''A'' CHR ''Z'') (take 5 s)
              \<and> list_all (in_range CHR ''0'' CHR ''9'') (take 4 (drop 5 s))
              \<and> in_range CHR ''A'' CHR ''Z'' (s ! 9))"
  shows "validatePAN (JStr s) = Invalid ''Invalid PAN format. Expected: ABCDE1234F''"
proof -
  from assms have "\<not> test panRegex s"
    by (simp only: test_panRegex not_False_eq_True)
  then show ?thesis
    by (simp add: validatePAN_def panSchema_def validate_string_field)
qed

theorem validatePAN_names_format_witness:
  "validatePAN (JStr ''ABCD1234EF'') = Invalid ''Invalid PAN format. Expected: ABCDE1234F''
     \<and> validatePAN (JStr ''abcde1234f'') = Invalid ''Invalid PAN format. Expected: ABCDE1234F''"
  using validatePAN_names_format [of "''ABCD1234EF''"]
    validatePAN_names_format [of "''abcde1234f''"]
  by (simp add: in_range_def)

section \<open>Parsing objects\<close>

lemma parse_field_paths: "i \<in> set (snd (parse_field f p v)) \<Longrightarrow> path i = p"
proof (cases f)
  case (ZString cs)
  have "i \<in> set (run_check p s c) \<Longrightarrow> path i = p" for s c
    by (cases c) (auto split: if_splits)
  with ZString show "i \<in> set (snd (parse_field f p v)) \<Longrightarrow> path i = p"
    by (cases v) (auto simp add: Let_def invalid_type_issue_def)
next
  case (ZBooleanRefine g msg)
  then show "i \<in> set (snd (parse_field f p v)) \<Longrightarrow> path i = p"
    by (cases v) (auto simp add: invalid_type_issue_def split: if_splits)
qed

lemma parse_field_invalid: "fst (parse_field f p v) \<noteq> SValid \<Longrightarrow> snd (parse_field f p v) \<noteq> []"
  by (cases f; cases v) (auto simp add: Let_def split: if_splits)

lemma parse_field_valid: "fst (parse_field f p v) = SValid \<Longrightarrow> snd (parse_field f p v) = []"
  by (cases f; cases v) (auto simp add: Let_def split: if_splits)

lemma parse_field_defined: "fst (parse_field f p v) = SValid \<Longrightarrow> v \<noteq> JUndefined"
  by (cases f) auto

lemma safeParse_object:
  "safeParse shape (JObj kvs) =
     (if \<forall>(k, f) \<in> set shape. fst (parse_field f [k] (lookup kvs k)) = SValid
      then Success (map (\<lambda>(k, f). (k, lookup kvs k))
             (filter (\<lambda>(k, f). k \<noteq> ''__proto__'') shape))
      else Failure (concat (map (\<lambda>(k, f). snd (parse_field f [k] (lookup kvs k))) shape)))"
proof -
  have keep: "filter (\<lambda>(k, f). k \<noteq> ''__proto__'' \<and> (lookup kvs k \<noteq> JUndefined \<or> k \<in> set (map fst kvs))) shape
      = filter (\<lambda>(k, f). k \<noteq> ''__proto__'') shape"
    if "\<forall>(k, f) \<in> set shape. fst (parse_field f [k] (lookup kvs k)) = SValid"
    using that by (intro filter_cong) (auto dest: parse_field_defined)
  have all: "list_all (\<lambda>r. fst r = SValid) (map (\<lambda>(k, f). parse_field f [k] (lookup kvs k)) shape)
      \<longleftrightarrow> (\<forall>(k, f) \<in> set shape. fst (parse_field f [k] (lookup kvs k)) = SValid)"
    by (auto simp add: list_all_iff)
  have iss: "map snd (map (\<lambda>(k, f). parse_field f [k] (lookup kvs k)) shape)
      = map (\<lambda>(k, f). snd (parse_field f [k] (lookup kvs k))) shape"
    by (simp add: case_prod_unfold comp_def)
  show ?thesis
  proof (cases "\<forall>(k, f) \<in> set shape. fst (parse_field f [k] (lookup kvs k)) = SValid")
    case True
    then show ?thesis
      unfolding safeParse_def Let_def jsval.case all iss by (simp only: keep if_True)
  next
    case False
    then show ?thesis
      unfolding safeParse_def Let_def jsval.case all iss by (simp only: if_False)
  qed
qed

lemma safeParse_not_object: "(\<And>kvs. v \<noteq> JObj kvs) \<Longrightarrow> \<exists>is. safeParse shape v = Failure is"
  by (cases v) (auto simp add: safeParse_def)

lemma ZString_valid_iff:
  "fst (parse_field (ZString cs) p v) = SValid \<longleftrightarrow>
     (\<exists>s. v = JStr s \<and> (\<forall>c \<in> set cs. run_check p s c = []))"
  by (cases v) (auto simp add: Let_def)

lemma ZBooleanRefine_valid_iff:
  "fst (parse_field (ZBooleanRefine g msg) p v) = SValid \<longleftrightarrow> (\<exists>b. v = JBool b \<and> g b)"
  by (cases v) auto

lemma all_valid_weaker:
  assumes "list_all2 (\<lambda>a b. fst a = fst b \<and>
              (\<forall>v. fst (parse_field (snd a) [fst a] v) = SValid
                    \<longrightarrow> fst (parse_field (snd b) [fst b] v) = SValid)) shape shape'"
    and "\<forall>(k, f) \<in> set shape. fst (parse_field f [k] (lookup kvs k)) = SValid"
  shows "\<forall>(k, f) \<in> set shape'. fst (parse_field f [k] (lookup kvs k)) = SValid"
  using assms by (induction rule: list_all2_induct) auto

lemma server_schema_weaker:
  "list_all2 (\<lambda>a b. fst a = fst b \<and>
      (\<forall>v. fst (parse_field (snd a) [fst a] v) = SValid
            \<longrightarrow> fst (parse_field (snd b) [fst b] v) = SValid))
     submissionSchema submissionSchema_server"
  unfolding submissionSchema_def submissionSchema_server_def
  by (auto simp add: ZString_valid_iff)

lemma server_accepts:
  assumes "safeParse submissionSchema v = Success d"
  shows "safeParse submissionSchema_server v = Success d"
proof -
  from assms obtain kvs where v: "v = JObj kvs"
    using safeParse_not_object [of v submissionSchema] by auto
  from assms have ok: "\<forall>(k, f) \<in> set submissionSchema. fst (parse_field f [k] (lookup kvs k)) = SValid"
    and d: "d = map (\<lambda>(k, f). (k, lookup kvs k)) (filter (\<lambda>(k, f). k \<noteq> ''__proto__'') submissionSchema)"
    unfolding v safeParse_object by (auto split: if_splits)
  from ok have ok': "\<forall>(k, f) \<in> set submissionSchema_server. fst (parse_field f [k] (lookup kvs k)) = SValid"
    by (rule all_valid_weaker [OF server_schema_weaker])
  have "map (\<lambda>(k, f). (k, lookup kvs k)) (filter (\<lambda>(k, f). k \<noteq> ''__proto__'') submissionSchema_server) = d"
    unfolding d by (simp add: submissionSchema_def submissionSchema_server_def)
  with ok' show ?thesis
    unfolding v safeParse_object by simp
qed

lemma concat_issue_mem:
  "(k, f) \<in> set shape \<Longrightarrow> i \<in> set (snd (parse_field f [k] (lookup kvs k))) \<Longrightarrow>
   i \<in> set (concat (map (\<lambda>(k, f). snd (parse_field f [k] (lookup kvs k))) shape))"
  by force

lemma invalid_fields_count:
  "length (filter (\<lambda>(k, f). fst (parse_field f [k] (lookup kvs k)) \<noteq> SValid) shape)
     \<le> length (concat (map (\<lambda>(k, f). snd (parse_field f [k] (lookup kvs k))) shape))"
proof (induction shape)
  case Nil
  show ?case by simp
next
  case (Cons a shape)
  obtain k f where a: "a = (k, f)" by (cases a)
  show ?case
  proof (cases "fst (parse_field f [k] (lookup kvs k)) = SValid")
    case True
    with Cons a show ?thesis by simp
  next
    case False
    then have "snd (parse_field f [k] (lookup kvs k)) \<noteq> []" by (rule parse_field_invalid)
    then have "1 \<le> length (snd (parse_field f [k] (lookup kvs k)))"
      by (cases "snd (parse_field f [k] (lookup kvs k))") simp_all
    with Cons a False show ?thesis by simp
  qed
qed

lemma safeParse_failure:
  assumes "(k, f) \<in> set shape" and "fst (parse_field f [k] (lookup kvs k)) \<noteq> SValid"
  shows "safeParse shape (JObj kvs)
    = Failure (concat (map (\<lambda>(k, f). snd (parse_field f [k] (lookup kvs k))) shape))"
  using assms unfolding safeParse_object by auto

lemma invalid_field_reported:
  assumes "(k, f) \<in> set shape" and "fst (parse_field f [k] (lookup kvs k)) \<noteq> SValid"
  shows "\<exists>i \<in> set (concat (map (\<lambda>(k, f). snd (parse_field f [k] (lookup kvs k))) shape)).
           path i = [k]"
proof -
  from assms(2) obtain i where i: "i \<in> set (snd (parse_field f [k] (lookup kvs k)))"
    using parse_field_invalid [of f "[k]" "lookup kvs k"]
    by (cases "snd (parse_field f [k] (lookup kvs k))") auto
  then have "path i = [k]" by (rule parse_field_paths)
  moreover from assms(1) i
  have "i \<in> set (concat (map (\<lambda>(k, f). snd (parse_field f [k] (lookup kvs k))) shape))"
    by (rule concat_issue_mem)
  ultimately show ?thesis by blast
qed

lemma parse_field_message:
  "i \<in> set (snd (parse_field f p v)) \<Longrightarrow>
   message i \<in> set (field_messages f) \<or> i = invalid_type_issue (expected_type f) p v"
proof (cases f)
  case (ZString cs)
  have "i \<in> set (run_check p s c) \<Longrightarrow> message i = check_message c" for s c
    by (cases c) (auto split: if_splits)
  with ZString show "i \<in> set (snd (parse_field f p v)) \<Longrightarrow>
      message i \<in> set (field_messages f) \<or> i = invalid_type_issue (expected_type f) p v"
    by (cases v) (auto simp add: Let_def)
next
  case (ZBooleanRefine g msg)
  then show "i \<in> set (snd (parse_field f p v)) \<Longrightarrow>
      message i \<in> set (field_messages f) \<or> i = invalid_type_issue (expected_type f) p v"
    by (cases v) (auto split: if_splits)
qed

lemma invalid_type_issue_message: "message (invalid_type_issue expected p v) \<noteq> []"
  by (simp add: invalid_type_issue_def)

lemma submissionSchema_messages:
  assumes "(k, f) \<in> set submissionSchema" and "i \<in> set (snd (parse_field f [k] v))"
  shows "message i \<noteq> []"
proof -
  from assms(1) have "[] \<notin> set (field_messages f)"
    unfolding submissionSchema_def by auto
  with parse_field_message [OF assms(2)] invalid_type_issue_message show ?thesis
    by metis
qed

section \<open>Validation of a submission\<close>

lemma example_fields_valid_service:
  "\<forall>(k, f) \<in> set submissionSchema.
      fst (parse_field f [k] (lookup (example_submission @ extra) k)) = SValid"
  by (simp add: submissionSchema_def example_submission_def lookup_def
        test_aadhaarRegex test_panRegex test_otpRegex test_pincodeRegex in_range_def)

lemma example_valid_service:
  "validateSubmission (JObj (example_submission @ extra)) = Valid example_submission"
  unfolding validateSubmission_def safeParse_object using example_fields_valid_service [of extra]
  by (simp add: submissionSchema_def example_submission_def lookup_def)

lemma example_fields_valid:
  "\<forall>(k, f) \<in> set submissionSchema_server.
      fst (parse_field f [k] (lookup example_submission k)) = SValid"
  by (simp add: submissionSchema_server_def example_submission_def lookup_def
        test_aadhaarRegex test_panRegex test_otpRegex test_pincodeRegex in_range_def)

lemma example_accepted: "safeParse submissionSchema_server (JObj example_submission) = Success example_submission"
  unfolding safeParse_object using example_fields_valid
  by (simp add: submissionSchema_server_def example_submission_def lookup_def)

lemma create_data_example:
  "create_data example_submission = example_submission @ [(''status'', JStr ''pending'')]"
  by (simp add: create_data_def example_submission_def lookup_def)

text \<open>
  C3. When the \<open>consent\<close> property of a submission record is missing or is anything
  but the boolean \<open>true\<close>, \<open>validateSubmission\<close> returns an invalid result with an
  entry for the path \<open>consent\<close>, whatever the other fields are. The message is
  \<open>Consent is required\<close> for \<open>false\<close>, \<open>Required\<close> for a missing property, and names
  the type received otherwise.
\<close>

theorem validateSubmission_consent_required:
  assumes "lookup kvs ''consent'' \<noteq> JBool True"
  shows "\<exists>is. validateSubmission (JObj kvs) = InvalidDetails ''Validation failed'' is
      \<and> \<lparr>code = (if lookup kvs ''consent'' = JBool False then custom else invalid_type),
          path = [''consent''],
          message = (if lookup kvs ''consent'' = JBool False then ''Consent is required''
                     else if lookup kvs ''consent'' = JUndefined then ''Required''
                     else ''Expected boolean, received '' @ parsed_type (lookup kvs ''consent''))\<rparr>
          \<in> set is"
proof -
  let ?f = "ZBooleanRefine (\<lambda>val. val = True) ''Consent is required''"
  let ?v = "lookup kvs ''consent''"
  let ?is = "concat (map (\<lambda>(k, f). snd (parse_field f [k] (lookup kvs k))) submissionSchema)"
  have mem: "(''consent'', ?f) \<in> set submissionSchema"
    by (simp add: submissionSchema_def)
  from assms have bad: "fst (parse_field ?f [''consent''] ?v) \<noteq> SValid"
    by (cases ?v) auto
  with mem have "safeParse submissionSchema (JObj kvs) = Failure ?is"
    unfolding safeParse_object by auto
  then have r: "validateSubmission (JObj kvs) = InvalidDetails ''Validation failed'' ?is"
    by (simp add: validateSubmission_def)
  from assms have "\<lparr>code = (if ?v = JBool False then custom else invalid_type),
          path = [''consent''],
          message = (if ?v = JBool False then ''Consent is required''
                     else if ?v = JUndefined then ''Required''
                     else ''Expected boolean, received '' @ parsed_type ?v)\<rparr>
        \<in> set (snd (parse_field ?f [''consent''] ?v))"
    by (cases ?v) (auto simp add: invalid_type_issue_def)
  with mem have "\<lparr>code = (if ?v = JBool False then custom else invalid_type),
          path = [''consent''],
          message = (if ?v = JBool False then ''Consent is required''
                     else if ?v = JUndefined then ''Required''
                     else ''Expected boolean, received '' @ parsed_type ?v)\<rparr> \<in> set ?is"
    by (rule concat_issue_mem)
  with r show ?thesis by blast
qed

theorem validateSubmission_consent_required_witness:
  "(\<exists>is. validateSubmission (JObj (set_property ''consent'' (JBool False) example_submission))
            = InvalidDetails ''Validation failed'' is
         \<and> \<lparr>code = custom, path = [''consent''], message = ''Consent is required''\<rparr> \<in> set is)
   \<and> (\<exists>is. validateSubmission (JObj (delete_property ''consent'' example_submission))
            = InvalidDetails ''Validation failed'' is
         \<and> \<lparr>code = invalid_type, path = [''consent''], message = ''Required''\<rparr> \<in> set is)
   \<and> (\<exists>is. validateSubmission (JObj (set_property ''consent'' (JStr ''true'') example_submission))
            = InvalidDetails ''Validation failed'' is
         \<and> \<lparr>code = invalid_type, path = [''consent''],
              message = ''Expected boolean, received string''\<rparr> \<in> set is)"
  using validateSubmission_consent_required [of "set_property ''consent'' (JBool False) example_submission"]
    validateSubmission_consent_required [of "delete_property ''consent'' example_submission"]
    validateSubmission_consent_required [of "set_property ''consent'' (JStr ''true'') example_submission"]
  by (simp add: lookup_def set_property_def delete_property_def example_submission_def)

text \<open>
  C4. When a field of a submission record is invalid, \<open>validateSubmission\<close> returns one
  invalid result whose details are the entries of all the fields, in the order of the
  schema: every invalid field has at least one entry, a valid field has none, and every
  entry of a field has the path of that field and a message, which is one of the messages
  that the schema declares for the field or the message of a value of the wrong type. The
  first failure does not hide the others.
\<close>

theorem validateSubmission_reports_every_field:
  assumes "(k, f) \<in> set submissionSchema"
    and "fst (parse_field f [k] (lookup kvs k)) \<noteq> SValid"
  shows "validateSubmission (JObj kvs) =
      InvalidDetails ''Validation failed''
        (concat (map (\<lambda>(k', f'). snd (parse_field f' [k'] (lookup kvs k'))) submissionSchema))
    \<and> (\<forall>(k', f') \<in> set submissionSchema.
          (fst (parse_field f' [k'] (lookup kvs k')) \<noteq> SValid
             \<longrightarrow> snd (parse_field f' [k'] (lookup kvs k')) \<noteq> [])
        \<and> (fst (parse_field f' [k'] (lookup kvs k')) = SValid
             \<longrightarrow> snd (parse_field f' [k'] (lookup kvs k')) = [])
        \<and> (\<forall>i \<in> set (snd (parse_field f' [k'] (lookup kvs k'))).
              path i = [k'] \<and> message i \<noteq> []
            \<and> (message i \<in> set (field_messages f')
               \<or> i = invalid_type_issue (expected_type f') [k'] (lookup kvs k'))))"
proof (intro conjI ballI)
  from assms have "safeParse submissionSchema (JObj kvs)
      = Failure (concat (map (\<lambda>(k', f'). snd (parse_field f' [k'] (lookup kvs k'))) submissionSchema))"
    by (rule safeParse_failure)
  then show "validateSubmission (JObj kvs) =
      InvalidDetails ''Validation failed''
        (concat (map (\<lambda>(k', f'). snd (parse_field f' [k'] (lookup kvs k'))) submissionSchema))"
    by (simp add: validateSubmission_def)
next
  fix x assume x: "x \<in> set submissionSchema"
  obtain k' f' where kf: "x = (k', f')" by (cases x)
  have "\<forall>i \<in> set (snd (parse_field f' [k'] (lookup kvs k'))).
      path i = [k'] \<and> message i \<noteq> []
      \<and> (message i \<in> set (field_messages f')
         \<or> i = invalid_type_issue (expected_type f') [k'] (lookup kvs k'))"
    using x [unfolded kf] parse_field_paths [of _ f' "[k']" "lookup kvs k'"]
      submissionSchema_messages [of k' f' _ "lookup kvs k'"]
      parse_field_message [of _ f' "[k']" "lookup kvs k'"]
    by blast
  then show "case x of (k', f') \<Rightarrow>
          (fst (parse_field f' [k'] (lookup kvs k')) \<noteq> SValid
             \<longrightarrow> snd (parse_field f' [k'] (lookup kvs k')) \<noteq> [])
        \<and> (fst (parse_field f' [k'] (lookup kvs k')) = SValid
             \<longrightarrow> snd (parse_field f' [k'] (lookup kvs k')) = [])
        \<and> (\<forall>i \<in> set (snd (parse_field f' [k'] (lookup kvs k'))).
              path i = [k'] \<and> message i \<noteq> []
            \<and> (message i \<in> set (field_messages f')
               \<or> i = invalid_type_issue (expected_type f') [k'] (lookup kvs k')))"
    unfolding kf using parse_field_invalid [of f' "[k']" "lookup kvs k'"]
      parse_field_valid [of f' "[k']" "lookup kvs k'"]
    by simp
qed

theorem validateSubmission_reports_every_field_witness:
  "validateSubmission
     (JObj (set_property ''panNumber'' (JStr ''BADPAN0000X'')
              (set_property ''aadhaarNumber'' (JStr ''123456789012'') example_submission)))
   = InvalidDetails ''Validation failed''
       [\<lparr>code = invalid_string, path = [''aadhaarNumber''], message = ''Invalid Aadhaar format''\<rparr>,
        \<lparr>code = invalid_string, path = [''panNumber''], message = ''Invalid PAN format''\<rparr>]"
proof -
  let ?kvs = "set_property ''panNumber'' (JStr ''BADPAN0000X'')
                (set_property ''aadhaarNumber'' (JStr ''123456789012'') example_submission)"
  let ?a = "ZString [CRegex aadhaarRegex ''Invalid Aadhaar format'']"
  have a1: "(''aadhaarNumber'', ?a) \<in> set submissionSchema"
    by (simp add: submissionSchema_def)
  have a2: "fst (parse_field ?a [''aadhaarNumber''] (lookup ?kvs ''aadhaarNumber'')) \<noteq> SValid"
    by (simp add: lookup_def set_property_def example_submission_def test_aadhaarRegex in_range_def)
  from validateSubmission_reports_every_field [OF a1 a2]
  have "validateSubmission (JObj ?kvs) =
      InvalidDetails ''Validation failed''
        (concat (map (\<lambda>(k', f'). snd (parse_field f' [k'] (lookup ?kvs k'))) submissionSchema))"
    by (rule conjunct1)
  also have "concat (map (\<lambda>(k', f'). snd (parse_field f' [k'] (lookup ?kvs k'))) submissionSchema)
      = [\<lparr>code = invalid_string, path = [''aadhaarNumber''], message = ''Invalid Aadhaar format''\<rparr>,
         \<lparr>code = invalid_string, path = [''panNumber''], message = ''Invalid PAN format''\<rparr>]"
    by (simp add: submissionSchema_def lookup_def set_property_def example_submission_def
          test_aadhaarRegex test_panRegex test_otpRegex test_pincodeRegex in_range_def)
  finally show ?thesis .
qed

text \<open>
  C10. When \<open>validateSubmission\<close> succeeds, its data has exactly the thirteen declared
  properties, each with the value of the input; other keys of the input are not in it.
  The endpoint, whose own schema accepts the same input, sends this object back when no
  database client is there, and otherwise gives the client its thirteen properties,
  followed by the status \<open>pending\<close>.
\<close>

theorem validateSubmission_strips_unknown_keys:
  assumes "validateSubmission v = Valid d"
  shows "\<exists>kvs. v = JObj kvs
      \<and> d = map (\<lambda>k. (k, lookup kvs k))
              [''aadhaarNumber'', ''entrepreneurName'', ''consent'', ''otp'', ''otpVerified'',
               ''organisationType'', ''panNumber'', ''panHolderName'', ''dob'', ''panConsent'',
               ''pincode'', ''state'', ''city'']
      \<and> submit v NoClient =
          \<lparr>status = 202,
           body = Unstored ''Database not configured. Data accepted for validation only.'' d\<rparr>
      \<and> (\<forall>create. submit v (Client create) =
            (case create (d @ [(''status'', JStr ''pending'')]) of
               Returns saved_id \<Rightarrow>
                 \<lparr>status = 200,
                  body = StoredId saved_id ''Udyam registration submitted successfully''\<rparr>
             | Throws e \<Rightarrow>
                 \<lparr>status = 500,
                  body = ErrorMessage ''Internal server error''
                    (message_or e ''Failed to store submission'')\<rparr>))"
proof -
  from assms have s: "safeParse submissionSchema v = Success d"
    by (auto simp add: validateSubmission_def split: parse_result.splits)
  then obtain kvs where v: "v = JObj kvs"
    using safeParse_not_object [of v submissionSchema] by auto
  from s have d: "d = map (\<lambda>k. (k, lookup kvs k))
              [''aadhaarNumber'', ''entrepreneurName'', ''consent'', ''otp'', ''otpVerified'',
               ''organisationType'', ''panNumber'', ''panHolderName'', ''dob'', ''panConsent'',
               ''pincode'', ''state'', ''city'']"
    unfolding v safeParse_object by (simp add: submissionSchema_def split: if_splits)
  have cd: "create_data d = d @ [(''status'', JStr ''pending'')]"
    unfolding d by (simp add: create_data_def lookup_def)
  from s have s': "safeParse submissionSchema_server v = Success d" by (rule server_accepts)
  have a: "submit v NoClient =
          \<lparr>status = 202,
           body = Unstored ''Database not configured. Data accepted for validation only.'' d\<rparr>"
    by (simp add: submit_def s')
  have b: "\<forall>create. submit v (Client create) =
            (case create (d @ [(''status'', JStr ''pending'')]) of
               Returns saved_id \<Rightarrow>
                 \<lparr>status = 200,
                  body = StoredId saved_id ''Udyam registration submitted successfully''\<rparr>
             | Throws e \<Rightarrow>
                 \<lparr>status = 500,
                  body = ErrorMessage ''Internal server error''
                    (message_or e ''Failed to store submission'')\<rparr>)"
    by (simp add: submit_def s' cd)
  show ?thesis
    by (intro exI [of _ kvs] conjI) (rule v d a b)+
qed

theorem validateSubmission_strips_unknown_keys_witness:
  "validateSubmission (JObj (example_submission @ [(''role'', JStr ''admin'')])) = Valid example_submission
   \<and> submit (JObj (example_submission @ [(''role'', JStr ''admin'')])) NoClient =
        \<lparr>status = 202,
         body = Unstored ''Database not configured. Data accepted for validation only.''
                  example_submission\<rparr>
   \<and> submit (JObj (example_submission @ [(''role'', JStr ''admin'')]))
         (Client (\<lambda>row. if map fst row = map fst example_submission @ [''status'']
                          then Returns ''test-id-123'' else Throws None)) =
        \<lparr>status = 200, body = StoredId ''test-id-123'' ''Udyam registration submitted successfully''\<rparr>"
proof -
  let ?v = "JObj (example_submission @ [(''role'', JStr ''admin'')])"
  let ?create = "\<lambda>row. if map fst row = map fst example_submission @ [''status'']
                          then Returns ''test-id-123'' else Throws None"
  have h: "validateSubmission ?v = Valid example_submission" by (rule example_valid_service)
  from validateSubmission_strips_unknown_keys [OF h]
  have a: "submit ?v NoClient =
        \<lparr>status = 202,
         body = Unstored ''Database not configured. Data accepted for validation only.''
                  example_submission\<rparr>"
    and b: "submit ?v (Client ?create) =
            (case ?create (example_submission @ [(''status'', JStr ''pending'')]) of
               Returns saved_id \<Rightarrow>
                 \<lparr>status = 200,
                  body = StoredId saved_id ''Udyam registration submitted successfully''\<rparr>
             | Throws e \<Rightarrow>
                 \<lparr>status = 500,
                  body = ErrorMessage ''Internal server error''
                    (message_or e ''Failed to store submission'')\<rparr>)"
    by blast+
  from b have "submit ?v (Client ?create) =
        \<lparr>status = 200, body = StoredId ''test-id-123'' ''Udyam registration submitted successfully''\<rparr>"
    by (simp add: example_submission_def)
  with h a show ?thesis by blast
qed

section \<open>The answers of the submission endpoint\<close>

text \<open>
  C7. As claimed, the complete example submission would always be stored or acknowledged
  as not stored. It is not when the database client throws: the handler catches what
  \<open>create\<close> throws and answers with status 500 and an internal server error.
\<close>

theorem submit_example_create_throws:
  "submit (JObj example_submission) (Client (\<lambda>row. Throws (Some ''connection refused''))) =
     \<lparr>status = 500, body = ErrorMessage ''Internal server error'' ''connection refused''\<rparr>
   \<and> status (submit (JObj example_submission) (Client (\<lambda>row. Throws (Some ''connection refused''))))
       \<noteq> 200
   \<and> status (submit (JObj example_submission) (Client (\<lambda>row. Throws (Some ''connection refused''))))
       \<noteq> 202"
  by (simp add: submit_def example_accepted message_or_def)

text \<open>
  C7, amended. When the request passes the validation of the endpoint and no database
  client is there, the answer is the acknowledgment with status 202 that carries the
  parsed data. The complete example submission is never answered with the validation
  error of status 400: without a client it is acknowledged with status 202; with a client
  it is stored with status 200 when \<open>create\<close> returns the saved row, and answered with
  status 500 and an internal server error when \<open>create\<close> throws.
\<close>

theorem submit_unstored_acknowledgment:
  "(safeParse submissionSchema_server v = Success d \<longrightarrow>
      submit v NoClient =
        \<lparr>status = 202,
         body = Unstored ''Database not configured. Data accepted for validation only.'' d\<rparr>)
   \<and> submit (JObj example_submission) NoClient =
        \<lparr>status = 202,
         body = Unstored ''Database not configured. Data accepted for validation only.''
                  example_submission\<rparr>
   \<and> (\<forall>create.
          submit (JObj example_submission) (Client create) =
            (case create (example_submission @ [(''status'', JStr ''pending'')]) of
               Returns saved_id \<Rightarrow>
                 \<lparr>status = 200,
                  body = StoredId saved_id ''Udyam registration submitted successfully''\<rparr>
             | Throws e \<Rightarrow>
                 \<lparr>status = 500,
                  body = ErrorMessage ''Internal server error''
                    (message_or e ''Failed to store submission'')\<rparr>))
   \<and> (\<forall>client. status (submit (JObj example_submission) client) \<noteq> 400)"
proof (intro conjI allI impI)
  assume "safeParse submissionSchema_server v = Success d"
  then show "submit v NoClient =
        \<lparr>status = 202,
         body = Unstored ''Database not configured. Data accepted for validation only.'' d\<rparr>"
    by (simp add: submit_def)
next
  show "submit (JObj example_submission) NoClient =
        \<lparr>status = 202,
         body = Unstored ''Database not configured. Data accepted for validation only.''
                  example_submission\<rparr>"
    by (simp add: submit_def example_accepted)
next
  fix create :: "(string \<times> jsval) list \<Rightarrow> string outcome"
  show "submit (JObj example_submission) (Client create) =
            (case create (example_submission @ [(''status'', JStr ''pending'')]) of
               Returns saved_id \<Rightarrow>
                 \<lparr>status = 200,
                  body = StoredId saved_id ''Udyam registration submitted successfully''\<rparr>
             | Throws e \<Rightarrow>
                 \<lparr>status = 500,
                  body = ErrorMessage ''Internal server error''
                    (message_or e ''Failed to store submission'')\<rparr>)"
    by (simp add: submit_def example_accepted create_data_example)
next
  fix client
  show "status (submit (JObj example_submission) client) \<noteq> 400"
    by (cases client) (simp_all add: submit_def example_accepted split: outcome.split)
qed

theorem submit_unstored_acknowledgment_witness:
  "safeParse submissionSchema_server (JObj example_submission) = Success example_submission
   \<and> submit (JObj example_submission) NoClient =
        \<lparr>status = 202,
         body = Unstored ''Database not configured. Data accepted for validation only.''
                  example_submission\<rparr>
   \<and> submit (JObj example_submission) (Client (\<lambda>row. Returns ''test-id-123'')) =
        \<lparr>status = 200, body = StoredId ''test-id-123'' ''Udyam registration submitted successfully''\<rparr>
   \<and> submit (JObj example_submission) (Client (\<lambda>row. Throws None)) =
        \<lparr>status = 500,
         body = ErrorMessage ''Internal server error'' ''Failed to store submission''\<rparr>"
  using submit_unstored_acknowledgment [of "JObj example_submission" example_submission]
    example_accepted
  by (simp add: message_or_def)

text \<open>The endpoint reports the invalid fields in the same way, with status 400; a
  consent that is not \<open>true\<close> is one of them.\<close>

lemma submit_reports_every_field:
  assumes "(k, f) \<in> set submissionSchema_server"
    and "fst (parse_field f [k] (lookup kvs k)) \<noteq> SValid"
  shows "\<exists>is. (\<forall>client. submit (JObj kvs) client
                  = \<lparr>status = 400, body = ErrorDetails ''Validation failed'' is\<rparr>)
      \<and> (\<forall>(k', f') \<in> set submissionSchema_server.
            fst (parse_field f' [k'] (lookup kvs k')) \<noteq> SValid \<longrightarrow> (\<exists>i \<in> set is. path i = [k']))"
proof -
  let ?is = "concat (map (\<lambda>(k, f). snd (parse_field f [k] (lookup kvs k))) submissionSchema_server)"
  from assms have "safeParse submissionSchema_server (JObj kvs) = Failure ?is"
    by (rule safeParse_failure)
  then have "\<forall>client. submit (JObj kvs) client
      = \<lparr>status = 400, body = ErrorDetails ''Validation failed'' ?is\<rparr>"
    by (simp add: submit_def)
  moreover have "\<forall>(k', f') \<in> set submissionSchema_server.
      fst (parse_field f' [k'] (lookup kvs k')) \<noteq> SValid \<longrightarrow> (\<exists>i \<in> set ?is. path i = [k'])"
    using invalid_field_reported [of _ _ submissionSchema_server kvs] by blast
  ultimately show ?thesis by blast
qed

lemma submit_consent_required:
  assumes "lookup kvs ''consent'' \<noteq> JBool True"
  shows "\<exists>is. (\<forall>client. submit (JObj kvs) client
                  = \<lparr>status = 400, body = ErrorDetails ''Validation failed'' is\<rparr>)
      \<and> (\<exists>i \<in> set is. path i = [''consent''])"
proof -
  let ?f = "ZBooleanRefine (\<lambda>val. val = True) ''Consent is required''"
  have mem: "(''consent'', ?f) \<in> set submissionSchema_server"
    by (simp add: submissionSchema_server_def)
  from assms have bad: "fst (parse_field ?f [''consent''] (lookup kvs ''consent'')) \<noteq> SValid"
    by (cases "lookup kvs ''consent''") auto
  from submit_reports_every_field [OF mem bad] mem bad show ?thesis by blast
qed

section \<open>Sanitizing\<close>

lemma m_advances:
  "q \<in> set (m ic r p) \<Longrightarrow> \<exists>u. snd p = u @ snd q \<and> fst q = rev u @ fst p"
proof (induction ic r p arbitrary: q rule: m.induct)
  case (6 ic r1 r2 p)
  from "6.prems" obtain q1 where q1: "q1 \<in> set (m ic r1 p)" and q: "q \<in> set (m ic r2 q1)"
    by auto
  from "6.IH"(1) [OF q1] obtain u where u: "snd p = u @ snd q1" "fst q1 = rev u @ fst p" by blast
  from "6.IH"(2) [OF q1 q] obtain w where w: "snd q1 = w @ snd q" "fst q = rev w @ fst q1" by blast
  from u w have "snd p = (u @ w) @ snd q \<and> fst q = rev (u @ w) @ fst p" by simp
  then show ?case by blast
next
  case (7 ic r p)
  show ?case
  proof (cases "q = p")
    case True
    then show ?thesis by simp
  next
    case False
    with "7.prems" obtain q1 where q1: "q1 \<in> set (m ic r p)"
      and less: "length (snd q1) < length (snd p)" and q: "q \<in> set (m ic (Star r) q1)"
      by (auto simp add: m.simps(7) [of ic r p] split: if_splits)
    from "7.IH"(1) [OF q1] obtain u where u: "snd p = u @ snd q1" "fst q1 = rev u @ fst p" by blast
    from "7.IH"(2) [OF q1 less q] obtain w where w: "snd q1 = w @ snd q" "fst q = rev w @ fst q1"
      by blast
    from u w have "snd p = (u @ w) @ snd q \<and> fst q = rev (u @ w) @ fst p" by simp
    then show ?thesis by blast
  qed
next
  case (8 ic r p)
  from "8.prems" obtain q1 where q1: "q1 \<in> set (m ic r p)" and q: "q \<in> set (m ic (Star r) q1)"
    by auto
  from "8.IH"(1) [OF q1] obtain u where u: "snd p = u @ snd q1" "fst q1 = rev u @ fst p" by blast
  from "8.IH"(2) [OF q1 q] obtain w where w: "snd q1 = w @ snd q" "fst q = rev w @ fst q1" by blast
  from u w have "snd p = (u @ w) @ snd q \<and> fst q = rev (u @ w) @ fst p" by simp
  then show ?case by blast
next
  case (10 ic n r p)
  from "10.prems" obtain q1 where q1: "q1 \<in> set (m ic r p)" and q: "q \<in> set (m ic (Rep n r) q1)"
    by auto
  from "10.IH"(1) [OF q1] obtain u where u: "snd p = u @ snd q1" "fst q1 = rev u @ fst p" by blast
  from "10.IH"(2) [OF q1 q] obtain w where w: "snd q1 = w @ snd q" "fst q = rev w @ fst q1" by blast
  from u w have "snd p = (u @ w) @ snd q \<and> fst q = rev (u @ w) @ fst p" by simp
  then show ?case by blast
qed (auto split: if_splits)

lemma replace_all_subseq_aux: "rep = [] \<Longrightarrow> subseq (replace_all ic r rep b a) a"
proof (induction ic r rep b a rule: replace_all.induct)
  case (1 ic r rep b a)
  note rep = \<open>rep = []\<close>
  note eq = replace_all.simps [of ic r rep b a]
  show ?case
  proof (cases "m ic r (b, a)")
    case Nil
    show ?thesis
    proof (cases a)
      case Nil
      with \<open>m ic r (b, a) = []\<close> show ?thesis unfolding eq by simp
    next
      case (Cons c cs)
      from "1.IH"(1) [OF \<open>m ic r (b, a) = []\<close> Cons rep]
      have "subseq (replace_all ic r rep (c # b) cs) cs" .
      with \<open>m ic r (b, a) = []\<close> Cons show ?thesis unfolding eq by simp
    qed
  next
    case (Cons q qs)
    show ?thesis
    proof (cases "length (snd q) < length a")
      case True
      from Cons have "q \<in> set (m ic r (b, a))" by simp
      then obtain u where u: "a = u @ snd q" using m_advances [of q ic r "(b, a)"] by auto
      from "1.IH"(2) [OF Cons True rep] have "subseq (replace_all ic r rep (fst q) (snd q)) (snd q)" .
      then have "subseq (replace_all ic r rep (fst q) (snd q)) (u @ snd q)"
        by (rule list_emb_append2)
      then have "subseq (replace_all ic r rep (fst q) (snd q)) a" using u by simp
      with Cons True rep show ?thesis unfolding eq by simp
    next
      case False
      show ?thesis
      proof (cases a)
        case Nil
        with Cons False rep show ?thesis unfolding eq by simp
      next
        case (Cons c cs)
        from "1.IH"(3) [OF \<open>m ic r (b, a) = q # qs\<close> False Cons rep]
        have "subseq (replace_all ic r rep (c # b) cs) cs" .
        with \<open>m ic r (b, a) = q # qs\<close> False Cons rep show ?thesis unfolding eq by simp
      qed
    qed
  qed
qed

lemma replace_all_subseq: "subseq (replace_all ic r [] b a) a"
  by (rule replace_all_subseq_aux) simp

lemma trim_subseq: "subseq (trim s) s"
proof -
  have "suffix (dropWhile is_space s) s" by (rule suffix_dropWhile)
  moreover have "prefix (rev (dropWhile is_space (rev (dropWhile is_space s)))) (dropWhile is_space s)"
    using suffix_dropWhile [of is_space "rev (dropWhile is_space s)"]
    by (simp add: suffix_to_prefix)
  ultimately show ?thesis
    unfolding trim_def
    by (meson prefix_imp_subseq subseq_order.order_trans suffix_imp_subseq)
qed

lemma trim_ends:
  assumes "trim s \<noteq> []"
  shows "\<not> is_space (hd (trim s)) \<and> \<not> is_space (last (trim s))"
proof -
  let ?t = "dropWhile is_space s"
  let ?u = "dropWhile is_space (rev ?t)"
  have tr: "trim s = rev ?u" by (simp add: trim_def)
  with assms have u: "?u \<noteq> []" by simp
  then have l: "\<not> is_space (hd ?u)" by (rule hd_dropWhile)
  from u have "last (trim s) = hd ?u" unfolding tr by (simp add: last_rev)
  with l have last: "\<not> is_space (last (trim s))" by simp
  have "suffix ?u (rev ?t)" by (rule suffix_dropWhile)
  then have "prefix (trim s) ?t" unfolding tr by (simp add: suffix_to_prefix)
  then obtain zs where zs: "?t = trim s @ zs" by (auto simp add: prefix_def)
  with assms have h: "hd ?t = hd (trim s)" by (metis hd_append2)
  from zs assms have "?t \<noteq> []" by auto
  then have "\<not> is_space (hd ?t)" by (rule hd_dropWhile)
  with h last show ?thesis by simp
qed

lemma replace_g_subseq: "flag_g rx \<Longrightarrow> subseq (replace s rx []) s"
  by (simp add: replace_def replace_all_subseq)

lemma sanitize_string_subseq: "subseq (sanitize_string s) s"
proof -
  let ?a = "replace s script_element ''''"
  let ?b = "replace ?a javascript_scheme ''''"
  let ?c = "replace ?b event_handler ''''"
  have "subseq ?a s" by (rule replace_g_subseq) (simp add: script_element_def)
  moreover have "subseq ?b ?a" by (rule replace_g_subseq) (simp add: javascript_scheme_def)
  moreover have "subseq ?c ?b" by (rule replace_g_subseq) (simp add: event_handler_def)
  moreover have "subseq (trim ?c) ?c" by (rule trim_subseq)
  ultimately show ?thesis
    unfolding sanitize_string_def by (meson subseq_order.order_trans)
qed

text \<open>
  For an object with distinct keys, none of them \<open>__proto__\<close>, \<open>sanitizeInput\<close> returns
  an object with the same keys in the same order and the prototype of an object literal;
  a value that is not a string is passed through as it is, and a string is replaced by
  its sanitized form, which is made of characters of the string, in their order, and has
  no white space at its ends.
\<close>

lemma foldl_assign_fresh:
  assumes "distinct (map fst acc @ map fst data)" and "''__proto__'' \<notin> set (map fst data)"
  shows "foldl (\<lambda>sanitized (key, v). assign sanitized key (sanitize_value v))
           \<lparr>own = acc, proto = p\<rparr> data
         = \<lparr>own = acc @ map (\<lambda>(key, v). (key, sanitize_value v)) data, proto = p\<rparr>"
  using assms
proof (induction data arbitrary: acc)
  case Nil
  show ?case by simp
next
  case (Cons a data)
  obtain key v where a: "a = (key, v)" by (cases a)
  from Cons.prems a have fresh: "key \<notin> set (map fst acc)" and np: "key \<noteq> ''__proto__''"
    by auto
  then have step: "assign \<lparr>own = acc, proto = p\<rparr> key (sanitize_value v)
      = \<lparr>own = acc @ [(key, sanitize_value v)], proto = p\<rparr>"
    by (simp add: assign_def)
  from Cons.prems a have "distinct (map fst (acc @ [(key, sanitize_value v)]) @ map fst data)"
    and "''__proto__'' \<notin> set (map fst data)"
    by auto
  from Cons.IH [OF this] show ?case
    unfolding a by (simp add: step)
qed

lemma sanitizeInput_plain_keys:
  assumes "distinct (map fst data)" and "''__proto__'' \<notin> set (map fst data)"
  shows "sanitizeInput data =
    \<lparr>own = map (\<lambda>(key, v). (key, sanitize_value v)) data, proto = ObjectPrototype\<rparr>"
  using foldl_assign_fresh [of "[]" data ObjectPrototype] assms
  by (simp add: sanitizeInput_def)

lemma sanitize_value_cases:
  "(case v of
      JStr s \<Rightarrow>
        (\<exists>s'. sanitize_value v = JStr s' \<and> subseq s' s
           \<and> (s' \<noteq> [] \<longrightarrow> \<not> is_space (hd s') \<and> \<not> is_space (last s')))
    | _ \<Rightarrow> sanitize_value v = v)"
  using sanitize_string_subseq trim_ends
  by (cases v) (simp_all add: sanitize_string_def)

text \<open>
  C5. The claim is that every field of every record is mapped: strings sanitized, other
  values passed through. An entry with the key \<open>__proto__\<close>, which a parsed request body
  can have, is not: the assignment runs the setter of the prototype, so a string under
  this key is dropped, and an object under this key is not a field of the result but
  becomes its prototype.
\<close>

theorem sanitizeInput_proto_key:
  "sanitizeInput [(''name'', JStr ''<script>alert(1)</script>John''), (''__proto__'', JStr ''John'')]
     = \<lparr>own = [(''name'', JStr ''John'')], proto = ObjectPrototype\<rparr>
   \<and> sanitizeInput [(''__proto__'', JObj [(''isAdmin'', JBool True)]), (''name'', JStr ''A'')]
     = \<lparr>own = [(''name'', JStr ''A'')], proto = ValuePrototype (JObj [(''isAdmin'', JBool True)])\<rparr>"
  by code_simp

lemma sanitizeInput_examples:
  "sanitizeInput
     [(''name'', JStr ''John<img onerror=alert(1)>''),
      (''description'', JStr ''  javascript:alert(1) ''),
      (''consent'', JBool True)]
   = \<lparr>own = [(''name'', JStr ''John<img alert(1)>''),
             (''description'', JStr ''alert(1)''),
             (''consent'', JBool True)],
      proto = ObjectPrototype\<rparr>"
  by code_simp

text \<open>Each pattern is removed in one pass, so a removal can bring the parts of another
  match together.\<close>

lemma single_pass: "sanitize_string ''javajavascript:script:alert(1)'' = ''javascript:alert(1)''"
  by code_simp

lemma script_fields_valid:
  "\<forall>(k, f) \<in> set submissionSchema_server.
      fst (parse_field f [k] (lookup script_submission k)) = SValid"
  by (simp add: submissionSchema_server_def script_submission_def set_property_def
        example_submission_def lookup_def
        test_aadhaarRegex test_panRegex test_otpRegex test_pincodeRegex in_range_def)

lemma script_accepted:
  "safeParse submissionSchema_server (JObj script_submission) = Success script_submission"
  unfolding safeParse_object using script_fields_valid
  by (simp add: submissionSchema_server_def script_submission_def set_property_def
        example_submission_def lookup_def)

text \<open>
  C2. The claim is that every string of a stored submission has been sanitized before it
  reaches the persistence sink. The handler never calls \<open>sanitizeInput\<close>: here the sink
  names the saved row after the \<open>entrepreneurName\<close> it is given, and the name it is given
  is the one of the request, script element included, where sanitizing gives \<open>John\<close>.
\<close>

theorem submit_stores_unsanitized:
  "submit (JObj script_submission)
      (Client (\<lambda>row. case lookup row ''entrepreneurName'' of
                         JStr s \<Rightarrow> Returns s | _ \<Rightarrow> Throws None)) =
     \<lparr>status = 200,
      body = StoredId ''<script>alert(1)</script>John''
               ''Udyam registration submitted successfully''\<rparr>
   \<and> lookup (own (sanitizeInput script_submission)) ''entrepreneurName'' = JStr ''John''
   \<and> submit (JObj script_submission) NoClient =
        \<lparr>status = 202,
         body = Unstored ''Database not configured. Data accepted for validation only.''
                  script_submission\<rparr>"
proof (intro conjI)
  have cd: "lookup (create_data script_submission) ''entrepreneurName''
      = JStr ''<script>alert(1)</script>John''"
    by (simp add: create_data_def script_submission_def set_property_def example_submission_def
          lookup_def)
  show "submit (JObj script_submission)
      (Client (\<lambda>row. case lookup row ''entrepreneurName'' of
                         JStr s \<Rightarrow> Returns s | _ \<Rightarrow> Throws None)) =
     \<lparr>status = 200,
      body = StoredId ''<script>alert(1)</script>John''
               ''Udyam registration submitted successfully''\<rparr>"
    by (simp add: submit_def script_accepted cd)
  show "lookup (own (sanitizeInput script_submission)) ''entrepreneurName'' = JStr ''John''"
    by code_simp
  show "submit (JObj script_submission) NoClient =
        \<lparr>status = 202,
         body = Unstored ''Database not configured. Data accepted for validation only.''
                  script_submission\<rparr>"
    by (simp add: submit_def script_accepted)
qed

section \<open>The fallback of the schema\<close>

text \<open>
  C6. When the request for the extracted schema fails, and when the endpoint answers that
  no generated file exists, \<open>fetchSchema\<close> for step 1 returns the static schema of step
  1, which has three fields; and \<open>fetchSchema\<close> never throws.
\<close>

theorem fetchSchema_falls_back:
  "fetchSchema 1 (Throws e) = Returns (Static step1Schema)
   \<and> fetchSchema 1 (Returns (http_response (scraped_schema None))) = Returns (Static step1Schema)
   \<and> map id' (fields' step1Schema) = [''aadhaarNumber'', ''mobileNumber'', ''otp'']
   \<and> fields' step1Schema \<noteq> []
   \<and> (\<forall>step_no fetched e'. fetchSchema step_no fetched \<noteq> Throws e')"
proof (intro conjI allI)
  show "fetchSchema 1 (Throws e) = Returns (Static step1Schema)"
    by (simp add: fetchSchema_def)
  show "fetchSchema 1 (Returns (http_response (scraped_schema None))) = Returns (Static step1Schema)"
    by (simp add: fetchSchema_def http_response_def scraped_schema_def)
  show "map id' (fields' step1Schema) = [''aadhaarNumber'', ''mobileNumber'', ''otp'']"
    by (simp add: step1Schema_def)
  then show "fields' step1Schema \<noteq> []" by auto
  show "fetchSchema step_no fetched \<noteq> Throws e'" for step_no fetched e'
    by (simp add: fetchSchema_def split: outcome.split option.split)
qed

theorem fetchSchema_falls_back_witness:
  "fetchSchema 1 (Returns \<lparr>ok = True, json = Throws None\<rparr>) \<noteq> Throws None
   \<and> fetchSchema 1 (Throws (Some ''Failed to fetch'')) = Returns (Static step1Schema)"
proof -
  from fetchSchema_falls_back
  have "fetchSchema 1 (Returns \<lparr>ok = True, json = Throws None\<rparr>) \<noteq> Throws None" by blast
  moreover from fetchSchema_falls_back [of "Some ''Failed to fetch''"]
  have "fetchSchema 1 (Throws (Some ''Failed to fetch'')) = Returns (Static step1Schema)" by blast
  ultimately show ?thesis by simp
qed

section \<open>The document of the extractor\<close>

text \<open>
  C8. The document that the extractor of step 2 writes always has a non-empty list of
  fields: when the evaluation in the page returned no field, the document is the
  hand-written default, whose fields are \<open>panNumber\<close>, \<open>pincode\<close>, \<open>state\<close> and
  \<open>city\<close>.
\<close>

theorem written_schema_never_empty:
  "(\<exists>fl. fields_of (written_schema fs) = Some fl \<and> fl \<noteq> [])
   \<and> ((fs = None \<or> fs = Some []) \<longrightarrow> written_schema fs = createFallback)
   \<and> (\<exists>fl. fields_of createFallback = Some fl
         \<and> map (\<lambda>f. case f of JObj kvs \<Rightarrow> lookup kvs ''id'' | _ \<Rightarrow> JUndefined) fl
             = [JStr ''panNumber'', JStr ''pincode'', JStr ''state'', JStr ''city''])"
proof (intro conjI impI)
  have fb: "\<exists>fl. fields_of createFallback = Some fl \<and> fl \<noteq> []"
    by (simp add: fields_of_def createFallback_def lookup_def)
  show "\<exists>fl. fields_of (written_schema fs) = Some fl \<and> fl \<noteq> []"
  proof (cases fs)
    case None
    with fb show ?thesis by (simp add: written_schema_def)
  next
    case (Some fl)
    show ?thesis
    proof (cases "fl = []")
      case True
      with Some fb show ?thesis by (simp add: written_schema_def)
    next
      case False
      then have "length fl \<ge> 1" by (cases fl) simp_all
      with Some False show ?thesis
        by (simp add: written_schema_def fields_of_def lookup_def)
    qed
  qed
  show "written_schema fs = createFallback" if "fs = None \<or> fs = Some []"
    using that by (auto simp add: written_schema_def)
  show "\<exists>fl. fields_of createFallback = Some fl
         \<and> map (\<lambda>f. case f of JObj kvs \<Rightarrow> lookup kvs ''id'' | _ \<Rightarrow> JUndefined) fl
             = [JStr ''panNumber'', JStr ''pincode'', JStr ''state'', JStr ''city'']"
    by (simp add: fields_of_def createFallback_def lookup_def)
qed

theorem written_schema_never_empty_witness:
  "written_schema (Some []) = createFallback
   \<and> (\<exists>fl. fields_of (written_schema (Some [])) = Some fl \<and> fl \<noteq> [])
   \<and> (\<exists>fl. fields_of (written_schema (Some [JObj [(''id'', JStr ''ctl00_txtPan'')]])) = Some fl
          \<and> fl \<noteq> [])"
proof -
  from written_schema_never_empty [of "Some []"]
  have a: "written_schema (Some []) = createFallback"
    and b: "\<exists>fl. fields_of (written_schema (Some [])) = Some fl \<and> fl \<noteq> []"
    by blast+
  from written_schema_never_empty [of "Some [JObj [(''id'', JStr ''ctl00_txtPan'')]]"]
  have c: "\<exists>fl. fields_of (written_schema (Some [JObj [(''id'', JStr ''ctl00_txtPan'')]])) = Some fl
          \<and> fl \<noteq> []"
    by blast
  show ?thesis by (intro conjI) (rule a b c)+
qed

end
